theory Spec2Isabelle
  imports Complex_Main
begin

section \<open>The number model\<close>

text \<open>
  The module \<^verbatim>\<open>minecraft-xp.js\<close> computes with JavaScript numbers. A finite number
  is modelled as an exact rational (\<^typ>\<open>rat\<close>): on integers of magnitude below
  \<open>2^53\<close> and on dyadic fractions the double arithmetic of the source is exact and
  agrees with it. The only operation of the module that leaves the finite numbers is the
  division \<^verbatim>\<open>/\<close>, which yields \<^verbatim>\<open>Infinity\<close>, \<^verbatim>\<open>-Infinity\<close> or \<^verbatim>\<open>NaN\<close> for
  a zero divisor; its result, and whatever is computed from it, is a \<open>jsnum\<close>.
  Negative zero is not modelled.
\<close>

datatype jsnum = Fin rat | PosInf | NegInf | NaN

text \<open>\<^verbatim>\<open>a / b\<close> on finite numbers.\<close>

definition js_div :: "rat \<Rightarrow> rat \<Rightarrow> jsnum" where
  "js_div a b =
     (if b \<noteq> 0 then Fin (a / b)
      else if a > 0 then PosInf
      else if a < 0 then NegInf
      else NaN)"

text \<open>\<^verbatim>\<open>Math.min(x, b)\<close> with a finite \<open>b\<close>: \<^verbatim>\<open>NaN\<close> is contagious.\<close>

fun Math_min :: "jsnum \<Rightarrow> rat \<Rightarrow> jsnum" where
  "Math_min (Fin a) b = Fin (min a b)"
| "Math_min PosInf b = Fin b"
| "Math_min NegInf b = NegInf"
| "Math_min NaN b = NaN"

text \<open>\<^verbatim>\<open>x * w\<close> with a finite \<open>w\<close>: an infinity times zero is \<^verbatim>\<open>NaN\<close>.\<close>

fun js_mul :: "jsnum \<Rightarrow> rat \<Rightarrow> jsnum" where
  "js_mul (Fin a) w = Fin (a * w)"
| "js_mul PosInf w = (if w > 0 then PosInf else if w < 0 then NegInf else NaN)"
| "js_mul NegInf w = (if w > 0 then NegInf else if w < 0 then PosInf else NaN)"
| "js_mul NaN w = NaN"

text \<open>\<^verbatim>\<open>w - x\<close> with a finite \<open>w\<close>.\<close>

fun js_sub :: "rat \<Rightarrow> jsnum \<Rightarrow> jsnum" where
  "js_sub w (Fin a) = Fin (w - a)"
| "js_sub w PosInf = NegInf"
| "js_sub w NegInf = PosInf"
| "js_sub w NaN = NaN"

text \<open>
  \<^verbatim>\<open>Math.round\<close>: the nearest integer, a tie going to the integer closer to
  \<open>+\<infinity>\<close> (ECMAScript), so \<^verbatim>\<open>Math.round(2.5)\<close> is 3 and
  \<^verbatim>\<open>Math.round(-2.5)\<close> is -2.
\<close>

fun Math_round :: "jsnum \<Rightarrow> jsnum" where
  "Math_round (Fin a) = Fin (of_int \<lfloor>a + 1 / 2\<rfloor>)"
| "Math_round PosInf = PosInf"
| "Math_round NegInf = NegInf"
| "Math_round NaN = NaN"

text \<open>
  The exceptions of the module: the \<^verbatim>\<open>RangeError\<close> of
  \<^verbatim>\<open>String.prototype.repeat\<close> and the \<^verbatim>\<open>Error\<close> that \<^verbatim>\<open>xpBetweenLevels\<close>
  throws with a message.
\<close>

datatype error = RangeError | Error string

text \<open>The truncation toward zero of \<^verbatim>\<open>ToIntegerOrInfinity\<close> on a finite number.\<close>

definition toInteger :: "rat \<Rightarrow> int" where
  "toInteger c = (if c \<ge> 0 then \<lfloor>c\<rfloor> else \<lceil>c\<rceil>)"

text \<open>
  \<^verbatim>\<open>s.repeat(count)\<close>: the count goes through \<^verbatim>\<open>ToIntegerOrInfinity\<close>
  (\<^verbatim>\<open>NaN\<close> becomes 0); a negative or infinite count throws \<^verbatim>\<open>RangeError\<close>.
\<close>

fun repeat :: "string \<Rightarrow> jsnum \<Rightarrow> error + string" where
  "repeat s (Fin c) =
     (let n = toInteger c
      in if n < 0 then Inl RangeError else Inr (concat (replicate (nat n) s)))"
| "repeat s PosInf = Inl RangeError"
| "repeat s NegInf = Inl RangeError"
| "repeat s NaN = Inr []"

section \<open>The level-cost model\<close>

definition xpForNextLevel :: "rat \<Rightarrow> rat" where
  "xpForNextLevel level =
     (if level \<ge> 0 \<and> level < 16 then 2 * level + 7
      else if level \<ge> 16 \<and> level < 31 then 5 * level - 38
      else 9 * level - 158)"

definition totalXPForLevel :: "rat \<Rightarrow> rat" where
  "totalXPForLevel level =
     (if level \<le> 0 then 0
      else if level \<le> 16 then level * level + 6 * level
      else if level \<le> 31 then (5 * level * level - 81 * level + 720) / 2
      else (9 * level * level - 325 * level + 4440) / 2)"

section \<open>Level lookup\<close>

text \<open>
  The \<^verbatim>\<open>while\<close> loop of \<^verbatim>\<open>getLevelFromXP\<close>, started at level 0. \<open>None\<close> stands
  for a loop that never leaves.
\<close>

partial_function (option) getLevelFromXP_loop :: "rat \<Rightarrow> rat \<Rightarrow> rat option" where
  "getLevelFromXP_loop totalXP level =
     (if totalXPForLevel (level + 1) \<le> totalXP
      then getLevelFromXP_loop totalXP (level + 1)
      else Some level)"

declare getLevelFromXP_loop.simps [code]

definition getLevelFromXP :: "rat \<Rightarrow> rat option" where
  "getLevelFromXP totalXP = getLevelFromXP_loop totalXP 0"

section \<open>The progress bar\<close>

text \<open>
  \<^verbatim>\<open>renderProgressBar(current, total, barWidth = 20)\<close>; an omitted width is \<open>None\<close>.
  The template literal evaluates the filled part first, then the empty part.
\<close>

definition renderProgressBar :: "rat \<Rightarrow> rat \<Rightarrow> rat option \<Rightarrow> error + string" where
  "renderProgressBar current total' barWidth' =
     (let barWidth = (case barWidth' of None \<Rightarrow> 20 | Some w \<Rightarrow> w);
          progressRatio = Math_min (js_div current total') 1;
          filledLength = Math_round (js_mul progressRatio barWidth);
          emptyLength = js_sub barWidth filledLength
      in case repeat ''#'' filledLength of
           Inl e \<Rightarrow> Inl e
         | Inr filledPart \<Rightarrow>
             (case repeat ''-'' emptyLength of
                Inl e \<Rightarrow> Inl e
              | Inr emptyPart \<Rightarrow> Inr (''['' @ filledPart @ emptyPart @ '']'')))"

section \<open>The status snapshot\<close>

record status =
  totalXP :: rat
  level :: rat
  xpAtCurrentLevelStart :: rat
  xpInLevel :: rat
  xpForLevelUp :: rat
  xpNeeded :: rat
  progressRatio :: jsnum
  progressBar :: string

text \<open>
  \<^verbatim>\<open>getXPStatus(totalXP, barWidth = 20)\<close>. The outer \<open>option\<close> is the termination
  of the level lookup, the sum is the exception of the bar renderer.
\<close>

definition getXPStatus :: "rat \<Rightarrow> rat option \<Rightarrow> (error + status) option" where
  "getXPStatus xp barWidth' =
     (let barWidth = (case barWidth' of None \<Rightarrow> 20 | Some w \<Rightarrow> w)
      in case getLevelFromXP xp of
           None \<Rightarrow> None
         | Some lvl \<Rightarrow>
             (let atStart = totalXPForLevel lvl;
                  inLevel = xp - atStart;
                  forLevelUp = xpForNextLevel lvl;
                  needed = forLevelUp - inLevel;
                  ratio = js_div inLevel forLevelUp
              in case renderProgressBar inLevel forLevelUp (Some barWidth) of
                   Inl e \<Rightarrow> Some (Inl e)
                 | Inr bar \<Rightarrow>
                     Some (Inr \<lparr>totalXP = xp, level = lvl,
                                 xpAtCurrentLevelStart = atStart, xpInLevel = inLevel,
                                 xpForLevelUp = forLevelUp, xpNeeded = needed,
                                 progressRatio = ratio, progressBar = bar\<rparr>)))"

section \<open>Experience between levels, experience at a percentage\<close>

definition xpBetweenLevels :: "rat \<Rightarrow> rat \<Rightarrow> error + rat" where
  "xpBetweenLevels startLevel endLevel =
     (if startLevel > endLevel
      then Inl (Error ''startLevel cannot be greater than endLevel'')
      else Inr (totalXPForLevel endLevel - totalXPForLevel startLevel))"


section \<open>Gain simulation\<close>

record simulation =
  finalXP :: rat
  steps :: "status list"

text \<open>
  The \<^verbatim>\<open>for\<close> loop of \<^verbatim>\<open>simulateXPGain\<close> over the remaining gains, with the
  running total and the snapshots pushed so far. \<^verbatim>\<open>getXPStatus(xp)\<close> is called
  without a width.
\<close>

fun simulateXPGain_loop ::
  "rat \<Rightarrow> status list \<Rightarrow> rat list \<Rightarrow> (error + simulation) option" where
  "simulateXPGain_loop xp pushed [] = Some (Inr \<lparr>finalXP = xp, steps = pushed\<rparr>)"
| "simulateXPGain_loop xp pushed (g # gains) =
     (let xp' = xp + g
      in case getXPStatus xp' None of
           None \<Rightarrow> None
         | Some (Inl e) \<Rightarrow> Some (Inl e)
         | Some (Inr st) \<Rightarrow> simulateXPGain_loop xp' (pushed @ [st]) gains)"

definition simulateXPGain :: "rat \<Rightarrow> rat list \<Rightarrow> (error + simulation) option" where
  "simulateXPGain initialXP gains = simulateXPGain_loop initialXP [] gains"

section \<open>The rounding rule of the specification\<close>


section \<open>The thresholds against the level-up cost\<close>






section \<open>The level lookup returns, with the level of the experience\<close>














section \<open>Experience between levels\<close>

text \<open>
  Claim C6. \<^verbatim>\<open>xpBetweenLevels(startLevel, endLevel)\<close> fails exactly when
  \<open>startLevel > endLevel\<close>, with the error the specification calls InvalidRange (the
  \<^verbatim>\<open>Error\<close> with the message of the source), and for \<open>startLevel \<le> endLevel\<close> it
  returns \<open>totalXPForLevel endLevel - totalXPForLevel startLevel\<close> without error.
\<close>

theorem xpBetweenLevels_range:
  "((\<exists>e. xpBetweenLevels startLevel endLevel = Inl e) \<longleftrightarrow> startLevel > endLevel)
   \<and> (startLevel > endLevel \<longrightarrow>
        xpBetweenLevels startLevel endLevel = Inl (Error ''startLevel cannot be greater than endLevel''))
   \<and> (startLevel \<le> endLevel \<longrightarrow>
        xpBetweenLevels startLevel endLevel = Inr (totalXPForLevel endLevel - totalXPForLevel startLevel))"
  by (simp add: xpBetweenLevels_def)

theorem xpBetweenLevels_range_witness:
  "xpBetweenLevels 15 10 = Inl (Error ''startLevel cannot be greater than endLevel'')
   \<and> xpBetweenLevels 10 15 = Inr 155"
  using xpBetweenLevels_range [of 15 10] xpBetweenLevels_range [of 10 15]
  by (simp add: totalXPForLevel_def)

section \<open>Experience at a percentage\<close>




section \<open>The progress bar on finite ratios\<close>

lemma toInteger_of_int: "toInteger (of_int n) = n"
  by (simp add: toInteger_def)

lemma concat_replicate_single: "concat (replicate n [c]) = replicate n c"
  by (induction n) simp_all

lemma repeat_of_int:
  "0 \<le> n \<Longrightarrow> repeat [c] (Fin (of_int n)) = Inr (replicate (nat n) c)"
  by (simp add: toInteger_of_int concat_replicate_single)

text \<open>For a ratio in \<open>[0, 1]\<close> the number of filled cells is within the width.\<close>

lemma filled_bounds:
  fixes r :: rat
  assumes "0 \<le> r" and "r \<le> 1"
  shows "0 \<le> \<lfloor>r * of_nat w + 1 / 2\<rfloor>" and "\<lfloor>r * of_nat w + 1 / 2\<rfloor> \<le> int w"
proof -
  have "0 \<le> r * of_nat w" using assms(1) by simp
  then show "0 \<le> \<lfloor>r * of_nat w + 1 / 2\<rfloor>" by simp
  have "r * of_nat w \<le> 1 * of_nat w" using assms(2) by (intro mult_right_mono) simp_all
  then have "r * of_nat w + 1 / 2 < of_int (int w + 1)" by simp
  then have "\<lfloor>r * of_nat w + 1 / 2\<rfloor> < int w + 1" by (simp only: floor_less_iff)
  then show "\<lfloor>r * of_nat w + 1 / 2\<rfloor> \<le> int w" by simp
qed

text \<open>
  The bar for a non-zero total and a non-negative quotient: no exception, \<open>f\<close> filled
  cells and \<open>w - f\<close> empty ones between the brackets.
\<close>

lemma render_finite:
  fixes current tot :: rat and w :: nat
  assumes "tot \<noteq> 0" and "0 \<le> current / tot"
  defines "f \<equiv> \<lfloor>min (current / tot) 1 * of_nat w + 1 / 2\<rfloor>"
  shows "renderProgressBar current tot (Some (of_nat w)) =
           Inr (''['' @ replicate (nat f) CHR ''#'' @ replicate (w - nat f) CHR ''-'' @ '']'')"
    and "0 \<le> f" and "f \<le> int w"
proof -
  have r: "0 \<le> min (current / tot) 1" "min (current / tot) 1 \<le> 1" using assms(2) by simp_all
  show f0: "0 \<le> f" and fw: "f \<le> int w" unfolding f_def using filled_bounds [OF r] by simp_all
  have e: "(of_nat w :: rat) - of_int f = of_int (int w - f)" by simp
  have "repeat ''#'' (Fin (of_int f)) = Inr (replicate (nat f) CHR ''#'')"
    using f0 by (rule repeat_of_int)
  moreover have "repeat ''-'' (Fin (of_int (int w - f))) = Inr (replicate (nat (int w - f)) CHR ''-'')"
    using fw by (intro repeat_of_int) simp
  moreover have "nat (int w - f) = w - nat f" using f0 by simp
  moreover have "js_div current tot = Fin (current / tot)"
    using assms(1) by (simp add: js_div_def)
  then have "Math_round (js_mul (Math_min (js_div current tot) 1) (of_nat w)) = Fin (of_int f)"
    by (simp add: f_def)
  moreover have "js_sub (of_nat w) (Fin (of_int f)) = Fin (of_int (int w - f))"
    by simp
  ultimately show "renderProgressBar current tot (Some (of_nat w)) =
           Inr (''['' @ replicate (nat f) CHR ''#'' @ replicate (w - nat f) CHR ''-'' @ '']'')"
    by (simp only: renderProgressBar_def Let_def option.case sum.case)
qed

lemma count_list_replicate_eq: "count_list (replicate n c) c = n"
  by (induction n) simp_all

lemma count_list_replicate_neq: "c \<noteq> d \<Longrightarrow> count_list (replicate n c) d = 0"
  by (induction n) simp_all

text \<open>
  Claim C7. For every \<open>current \<ge> 0\<close>, \<open>total > 0\<close> and positive integer width \<open>w\<close>,
  \<^verbatim>\<open>renderProgressBar(current, total, w)\<close> returns a string of length \<open>w + 2\<close>, the two
  brackets included, in which the filled marker occurs between 0 and \<open>w\<close> times.
\<close>

theorem renderProgressBar_bounds:
  "0 \<le> current \<Longrightarrow> 0 < tot \<Longrightarrow> 0 < w \<Longrightarrow>
     \<exists>s. renderProgressBar current tot (Some (of_nat w)) = Inr s
        \<and> length s = w + 2 \<and> count_list s CHR ''#'' \<le> w"
proof -
  assume c: "0 \<le> current" and t: "0 < tot" and "0 < w"
  define f where "f = \<lfloor>min (current / tot) 1 * of_nat w + 1 / 2\<rfloor>"
  define s where "s = ''['' @ replicate (nat f) CHR ''#'' @ replicate (w - nat f) CHR ''-'' @ '']''"
  from c t have q: "0 \<le> current / tot" by simp
  from t have n: "tot \<noteq> 0" by simp
  have "renderProgressBar current tot (Some (of_nat w)) = Inr s"
    unfolding s_def f_def using n q by (rule render_finite(1))
  moreover have f0: "0 \<le> f" and fw: "f \<le> int w"
    unfolding f_def using n q by (rule render_finite(2), rule render_finite(3))
  then have le: "nat f \<le> w" by simp
  then have "length s = w + 2" by (simp add: s_def)
  moreover have "count_list s CHR ''#'' = nat f"
    by (simp add: s_def count_list_replicate_eq count_list_replicate_neq)
  ultimately show ?thesis using le by simp
qed

theorem renderProgressBar_bounds_witness:
  "(0::rat) \<le> 5 \<and> (0::rat) < 20 \<and> (0::nat) < 20
   \<and> (\<exists>s. renderProgressBar 5 20 (Some (of_nat 20)) = Inr s \<and> length s = 20 + 2
           \<and> count_list s CHR ''#'' \<le> 20)"
  using renderProgressBar_bounds [of 5 20 20] by simp

text \<open>The literal scenario of the specification.\<close>

lemma render_5_20: "renderProgressBar 5 20 (Some 20) = Inr ''[#####---------------]''"
  by code_simp

section \<open>The progress bar on a zero total\<close>

text \<open>
  Claim C4, as amended. The source has no guard for \<open>total = 0\<close>: with a positive width
  \<open>w\<close>, a positive \<open>current\<close> gives the ratio \<^verbatim>\<open>Infinity\<close>, cut to 1, and the full
  bar is returned; \<open>current = 0\<close> gives \<^verbatim>\<open>NaN\<close> and the bar \<^verbatim>\<open>[]\<close> is returned;
  only a negative \<open>current\<close> surfaces an exception, the \<^verbatim>\<open>RangeError\<close> of
  \<^verbatim>\<open>repeat\<close> on the count \<^verbatim>\<open>-Infinity\<close>.
\<close>

theorem renderProgressBar_zero_total:
  "0 < w \<Longrightarrow>
     (0 < current \<longrightarrow>
        renderProgressBar current 0 (Some (of_nat w)) = Inr (''['' @ replicate w CHR ''#'' @ '']''))
     \<and> renderProgressBar 0 0 (Some (of_nat w)) = Inr ''[]''
     \<and> (current < 0 \<longrightarrow> renderProgressBar current 0 (Some (of_nat w)) = Inl RangeError)"
proof (intro conjI impI)
  assume w: "0 < w" and c: "0 < current"
  have fl: "\<lfloor>(of_nat w :: rat) + 1 / 2\<rfloor> = int w" by (rule floor_unique) simp_all
  from c have "js_div current 0 = PosInf" by (simp add: js_div_def)
  then have "Math_round (js_mul (Math_min (js_div current 0) 1) (of_nat w)) = Fin (of_int (int w))"
    by (simp add: fl)
  moreover have "js_sub (of_nat w) (Fin (of_int (int w))) = Fin (of_int 0)" by simp
  moreover have "repeat ''#'' (Fin (of_int (int w))) = Inr (replicate (nat (int w)) CHR ''#'')"
    by (rule repeat_of_int) simp
  moreover have "repeat ''-'' (Fin (of_int 0)) = Inr (replicate (nat 0) CHR ''-'')"
    by (rule repeat_of_int) simp
  ultimately have "renderProgressBar current 0 (Some (of_nat w)) =
      Inr (''['' @ replicate (nat (int w)) CHR ''#'' @ replicate (nat 0) CHR ''-'' @ '']'')"
    by (simp only: renderProgressBar_def Let_def option.case sum.case)
  then show "renderProgressBar current 0 (Some (of_nat w)) = Inr (''['' @ replicate w CHR ''#'' @ '']'')"
    by simp
next
  show "renderProgressBar 0 0 (Some (of_nat w)) = Inr ''[]''"
    by (simp add: renderProgressBar_def js_div_def)
next
  assume w: "0 < w" and c: "current < 0"
  then show "renderProgressBar current 0 (Some (of_nat w)) = Inl RangeError"
    by (simp add: renderProgressBar_def js_div_def)
qed

theorem renderProgressBar_zero_total_witness:
  "(0::nat) < 20 \<and> (0::rat) < 5 \<and> (- 1 :: rat) < 0
   \<and> renderProgressBar 5 0 (Some (of_nat 20)) = Inr (''['' @ replicate 20 CHR ''#'' @ '']'')
   \<and> renderProgressBar 0 0 (Some (of_nat 20)) = Inr ''[]''
   \<and> renderProgressBar (- 1) 0 (Some (of_nat 20)) = Inl RangeError"
  using renderProgressBar_zero_total [of 20 5] renderProgressBar_zero_total [of 20 "- 1"]
  by simp

text \<open>
  The claim as first stated, an explicit error for every call with \<open>total = 0\<close>, fails:
  these two calls return a string.
\<close>

theorem renderProgressBar_zero_total_counterexample:
  "renderProgressBar 5 0 (Some 20) = Inr ''[####################]''
   \<and> renderProgressBar 0 0 (Some 20) = Inr ''[]''"
  by code_simp

section \<open>The status snapshot of a non-negative experience\<close>



text \<open>The literal scenario of the specification.\<close>

lemma status_1500: "getXPStatus 1500 None = Some (Inr \<lparr>totalXP = 1500, level = 30,
    xpAtCurrentLevelStart = 1395, xpInLevel = 105, xpForLevelUp = 112, xpNeeded = 7,
    progressRatio = Fin (15 / 16), progressBar = ''[###################-]''\<rparr>)"
  by code_simp


section \<open>The gain simulation on non-negative running totals\<close>




text \<open>Two gains from zero, evaluated.\<close>

lemma simulate_0_7_3: "simulateXPGain 0 [7, 3] = Some (Inr \<lparr>finalXP = 10, steps =
   [\<lparr>totalXP = 7, level = 1, xpAtCurrentLevelStart = 7, xpInLevel = 0, xpForLevelUp = 9,
      xpNeeded = 9, progressRatio = Fin 0, progressBar = ''[--------------------]''\<rparr>,
    \<lparr>totalXP = 10, level = 1, xpAtCurrentLevelStart = 7, xpInLevel = 3, xpForLevelUp = 9,
      xpNeeded = 6, progressRatio = Fin (1 / 3), progressBar = ''[#######-------------]''\<rparr>]\<rparr>)"
  by code_simp



end
